theory Spec2Isabelle
  imports Complex_Main "HOL-Library.Word"
begin


section \<open>JavaScript numbers that the limiter can produce\<close>

text \<open>
  Timestamps are the integral millisecond readings of \<open>Date.now()\<close>, and the configured
  window width and request budget are taken as integers. The one non-integral number the
  limiter can compute is \<open>Math.min()\<close> of no arguments, which is \<open>Infinity\<close>.
\<close>

datatype jsnum = Num int | Infinity

fun Math_min :: "int list \<Rightarrow> jsnum" where
  "Math_min [] = Infinity"
| "Math_min (x # xs) = (case Math_min xs of Infinity \<Rightarrow> Num x | Num m \<Rightarrow> Num (min x m))"

fun jsnum_add :: "jsnum \<Rightarrow> int \<Rightarrow> jsnum" where
  "jsnum_add Infinity d = Infinity"
| "jsnum_add (Num a) d = Num (a + d)"

fun Math_max0 :: "jsnum \<Rightarrow> jsnum" where
  "Math_max0 Infinity = Infinity"
| "Math_max0 (Num a) = Num (max a 0)"

section \<open>RateLimiter (lib/rate-limiter)\<close>

record RateLimitResult =
  allowed :: bool
  remaining :: int
  resetTime :: jsnum

record RateLimiter =
  requests :: "string \<rightharpoonup> int list"
  windowMs :: int
  maxRequests :: int
  skipSuccessfulRequests :: bool

text \<open>\<open>this.requests.get(clientId) || []\<close>: an absent bucket reads as the empty array.\<close>

definition bucket :: "RateLimiter \<Rightarrow> string \<Rightarrow> int list" where
  "bucket L clientId = (case requests L clientId of None \<Rightarrow> [] | Some ts \<Rightarrow> ts)"

text \<open>
  \<open>check\<close> reads the clock once; the reading is the argument \<open>now\<close>. The body has no
  \<open>await\<close>, so it runs as one step on the store. The result is the verdict together with
  the limiter after the call.
\<close>

definition check :: "RateLimiter \<Rightarrow> string \<Rightarrow> int \<Rightarrow> RateLimitResult \<times> RateLimiter" where
  "check L clientId now =
     (let windowStart = now - windowMs L;
          clientRequests = filter (\<lambda>timestamp. timestamp > windowStart) (bucket L clientId)
      in if int (length clientRequests) \<ge> maxRequests L
         then (let oldestRequest = Math_min clientRequests;
                   resetTime = jsnum_add oldestRequest (windowMs L - now)
               in (\<lparr>allowed = False, remaining = 0, resetTime = Math_max0 resetTime\<rparr>, L))
         else (let clientRequests' = clientRequests @ [now]
               in (\<lparr>allowed = True,
                    remaining = maxRequests L - int (length clientRequests'),
                    resetTime = Num (windowMs L)\<rparr>,
                   L\<lparr>requests := (requests L)(clientId \<mapsto> clientRequests')\<rparr>)))"

definition recordSuccess :: "RateLimiter \<Rightarrow> string \<Rightarrow> RateLimiter" where
  "recordSuccess L clientId =
     (if skipSuccessfulRequests L
      then (let clientRequests = bucket L clientId
            in if length clientRequests > 0
               then L\<lparr>requests := (requests L)(clientId \<mapsto> butlast clientRequests)\<rparr>
               else L)
      else L)"

definition cleanup :: "RateLimiter \<Rightarrow> int \<Rightarrow> RateLimiter" where
  "cleanup L now =
     (let windowStart = now - windowMs L
      in L\<lparr>requests := (\<lambda>clientId.
           case requests L clientId of
             None \<Rightarrow> None
           | Some ts \<Rightarrow>
               (let validRequests = filter (\<lambda>timestamp. timestamp > windowStart) ts
                in if length validRequests = 0 then None else Some validRequests))\<rparr>)"

text \<open>The timestamps of a bucket that lie in the trailing window ending at \<open>now\<close>.\<close>

definition in_window :: "RateLimiter \<Rightarrow> int \<Rightarrow> int list \<Rightarrow> int list" where
  "in_window L now ts = filter (\<lambda>timestamp. timestamp > now - windowMs L) ts"


section \<open>Rendering numbers in template strings\<close>

text \<open>
  Template strings render an integral number in decimal, with a leading minus sign when it
  is negative (JavaScript switches to exponent notation only from \<open>10^21\<close> on);
  \<open>toString(36)\<close> uses the digits \<open>0-9a-z\<close>.
\<close>

definition digit_char :: "nat \<Rightarrow> char" where
  "digit_char d = ''0123456789abcdefghijklmnopqrstuvwxyz'' ! (d mod 36)"

fun digits_radix :: "nat \<Rightarrow> nat \<Rightarrow> string" where
  "digits_radix b n =
     (if b < 2 \<or> n < b then [digit_char n] else digits_radix b (n div b) @ [digit_char (n mod b)])"

definition show_int :: "int \<Rightarrow> string" where
  "show_int i = (if i < 0 then ''-'' @ digits_radix 10 (nat (- i)) else digits_radix 10 (nat i))"


section \<open>ClaudeWrapper: running the tool\<close>

record ClaudeWrapper =
  timeout :: int
  maxRetries :: int
  model :: string

text \<open>
  What one spawned child process does, as seen by \<open>executeClaude\<close>: it closes with an
  exit code (\<open>null\<close> when a signal ended it), the text it wrote to standard output and to
  standard error; or spawning raises the \<open>error\<close> event; or it is still running when
  the timer fires; or it has no standard input. The event listed is the one that settles
  the promise.
\<close>

datatype proc_run =
    Closed "int option" string string
  | SpawnError string
  | Hung
  | NoStdin

fun executeClaude :: "ClaudeWrapper \<Rightarrow> proc_run \<Rightarrow> string + string" where
  "executeClaude W (Closed code stdout stderr) =
     (if code = Some 0 then Inr stdout
      else Inl (''Claude CLI exited with code ''
                @ (case code of None \<Rightarrow> ''null'' | Some n \<Rightarrow> show_int n)
                @ ''. stderr: '' @ stderr))"
| "executeClaude W (SpawnError message) = Inl message"
| "executeClaude W Hung = Inl (''Claude CLI timed out after '' @ show_int (timeout W) @ ''ms'')"
| "executeClaude W NoStdin = Inl ''Failed to access stdin of Claude process''"

text \<open>\<open>Math.pow(2, attempt - 1) * 1000\<close>, the wait after a failed attempt.\<close>

definition waitTime :: "int \<Rightarrow> int" where
  "waitTime attempt = 2 ^ nat (attempt - 1) * 1000"

text \<open>
  The \<open>for\<close> loop of \<open>executeWithRetry\<close>. The subprocess abstraction \<open>runs\<close> gives
  what the process spawned at each attempt does. The loop state is the attempt counter and
  \<open>lastError\<close> (its message); \<open>waits\<close> logs the \<open>setTimeout\<close> delays slept so far. The
  result is \<open>Inr\<close> the output, or \<open>Inl\<close> the message of the \<open>Error\<close> thrown.
\<close>

function retry_loop ::
  "ClaudeWrapper \<Rightarrow> (int \<Rightarrow> proc_run) \<Rightarrow> int \<Rightarrow> string option \<Rightarrow> int list
     \<Rightarrow> (string + string) \<times> int list" where
  "retry_loop W runs attempt lastError waits =
     (if attempt \<le> maxRetries W
      then (case executeClaude W (runs attempt) of
              Inr output \<Rightarrow> (Inr output, waits)
            | Inl error \<Rightarrow>
                retry_loop W runs (attempt + 1) (Some error)
                  (if attempt < maxRetries W then waits @ [waitTime attempt] else waits))
      else (Inl (''Claude CLI failed after '' @ show_int (maxRetries W) @ '' attempts: ''
                 @ (case lastError of None \<Rightarrow> ''undefined'' | Some message \<Rightarrow> message)),
            waits))"
  by pat_completeness auto
termination
  by (relation "measure (\<lambda>(W, runs, attempt, lastError, waits). nat (maxRetries W + 1 - attempt))") auto

definition executeWithRetry ::
  "ClaudeWrapper \<Rightarrow> (int \<Rightarrow> proc_run) \<Rightarrow> (string + string) \<times> int list" where
  "executeWithRetry W runs = retry_loop W runs 1 None []"

section \<open>Strings as JavaScript has them\<close>

text \<open>
  A JavaScript string is a sequence of code units; a \<open>char\<close> here is a code unit below 256
  (Latin-1). Among these, \<open>trim\<close> and the regular-expression class \<open>\s\<close> take tab, line
  feed, vertical tab, form feed, carriage return, space and no-break space as white space;
  \<open>\d\<close> is an ASCII digit and \<open>\w\<close> an ASCII letter, digit or underscore.
\<close>

definition is_space :: "char \<Rightarrow> bool" where
  "is_space c = (c \<in> set [CHR 0x09, CHR 0x0A, CHR 0x0B, CHR 0x0C, CHR 0x0D, CHR 0x20, CHR 0xA0])"

definition is_digit :: "char \<Rightarrow> bool" where
  "is_digit c = (c \<in> set ''0123456789'')"

definition is_word :: "char \<Rightarrow> bool" where
  "is_word c = (c \<in> set ''ABCDEFGHIJKLMNOPQRSTUVWXYZabcdefghijklmnopqrstuvwxyz0123456789_'')"

definition trim :: "string \<Rightarrow> string" where
  "trim s = rev (dropWhile is_space (rev (dropWhile is_space s)))"

text \<open>\<open>toLowerCase\<close> on Latin-1: the letters A-Z and U+00C0-U+00DE (but not the
  multiplication sign U+00D7) move up by 32.\<close>

definition upper_chars :: string where
  "upper_chars = ''ABCDEFGHIJKLMNOPQRSTUVWXYZ'' @
       [CHR 0xC0, CHR 0xC1, CHR 0xC2, CHR 0xC3, CHR 0xC4, CHR 0xC5, CHR 0xC6, CHR 0xC7,
        CHR 0xC8, CHR 0xC9, CHR 0xCA, CHR 0xCB, CHR 0xCC, CHR 0xCD, CHR 0xCE, CHR 0xCF,
        CHR 0xD0, CHR 0xD1, CHR 0xD2, CHR 0xD3, CHR 0xD4, CHR 0xD5, CHR 0xD6, CHR 0xD8,
        CHR 0xD9, CHR 0xDA, CHR 0xDB, CHR 0xDC, CHR 0xDD, CHR 0xDE]"

definition lower_chars :: string where
  "lower_chars = ''abcdefghijklmnopqrstuvwxyz'' @
       [CHR 0xE0, CHR 0xE1, CHR 0xE2, CHR 0xE3, CHR 0xE4, CHR 0xE5, CHR 0xE6, CHR 0xE7,
        CHR 0xE8, CHR 0xE9, CHR 0xEA, CHR 0xEB, CHR 0xEC, CHR 0xED, CHR 0xEE, CHR 0xEF,
        CHR 0xF0, CHR 0xF1, CHR 0xF2, CHR 0xF3, CHR 0xF4, CHR 0xF5, CHR 0xF6, CHR 0xF8,
        CHR 0xF9, CHR 0xFA, CHR 0xFB, CHR 0xFC, CHR 0xFD, CHR 0xFE]"

definition lower_char :: "char \<Rightarrow> char" where
  "lower_char c = (case map_of (zip upper_chars lower_chars) c of None \<Rightarrow> c | Some d \<Rightarrow> d)"

definition toLowerCase :: "string \<Rightarrow> string" where
  "toLowerCase s = map lower_char s"

definition startsWith :: "string \<Rightarrow> string \<Rightarrow> bool" where
  "startsWith s p = (take (length p) s = p)"

text \<open>\<open>s.includes(p)\<close>: \<open>p\<close> occurs in \<open>s\<close> as a contiguous substring.\<close>

fun includes_str :: "string \<Rightarrow> string \<Rightarrow> bool" where
  "includes_str [] p = (p = [])"
| "includes_str (c # cs) p = (startsWith (c # cs) p \<or> includes_str cs p)"

text \<open>\<open>s.split('\n')\<close> and \<open>lines.join('\n')\<close>.\<close>

fun split_lines :: "string \<Rightarrow> string list" where
  "split_lines [] = [[]]"
| "split_lines (c # cs) =
     (if c = CHR 0x0A then [] # split_lines cs
      else (case split_lines cs of [] \<Rightarrow> [[c]] | l # ls \<Rightarrow> (c # l) # ls))"

fun join_lines :: "string list \<Rightarrow> string" where
  "join_lines [] = []"
| "join_lines [l] = l"
| "join_lines (l # ls) = l @ [CHR 0x0A] @ join_lines ls"


section \<open>ClaudeWrapper: parsing the output\<close>

text \<open>
  The code-block expression is a fence of three backquotes, any number of word characters,
  a line feed, the captured content (as short as possible), a line feed and three
  backquotes. \<open>find_close\<close> looks for the first line feed followed by three backquotes
  and returns the text before it and the text after it. \<open>match_fence\<close> matches the whole
  expression at the start of a string: the word characters are taken greedily, and giving
  some back cannot help since the next character must be a line feed.
\<close>

definition fence_close :: string where
  "fence_close = [CHR 0x0A, CHR 0x60, CHR 0x60, CHR 0x60]"

fun find_close :: "string \<Rightarrow> (string \<times> string) option" where
  "find_close [] = None"
| "find_close (c # cs) =
     (if startsWith (c # cs) fence_close then Some ([], drop 4 (c # cs))
      else map_option (\<lambda>(content, rest). (c # content, rest)) (find_close cs))"

definition match_fence :: "string \<Rightarrow> (string \<times> string) option" where
  "match_fence s =
     (if startsWith s [CHR 0x60, CHR 0x60, CHR 0x60]
      then (case dropWhile is_word (drop 3 s) of
              [] \<Rightarrow> None
            | c # rest \<Rightarrow> if c = CHR 0x0A then find_close rest else None)
      else None)"

text \<open>
  The \<open>while\<close> loop over \<open>codeBlockRegex.exec\<close> with the global flag: the leftmost match
  from the current position is recorded and the search resumes after it.
\<close>

function codeBlocks :: "string \<Rightarrow> string list" where
  "codeBlocks s =
     (case match_fence s of
        Some (content, rest) \<Rightarrow> content # codeBlocks rest
      | None \<Rightarrow> (case s of [] \<Rightarrow> [] | c # cs \<Rightarrow> codeBlocks cs))"
  by pat_completeness auto
termination
proof (relation "measure length")
  show "wf (measure length)" by simp
next
  fix s :: string and x2 content rest
  assume m: "match_fence s = Some x2" and x2: "(content, rest) = x2"
  have fc: "length r < length t" if "find_close t = Some (x, r)" for t x r
    using that by (induction t arbitrary: x) (auto split: if_splits)
  have dw: "length (dropWhile is_word t) \<le> length t" for t
    by (induction t) auto
  from m x2 obtain c t where t: "dropWhile is_word (drop 3 s) = c # t" and f: "find_close t = Some (content, rest)"
    by (auto simp: match_fence_def split: if_splits list.splits)
  from dw [of "drop 3 s"] t have "length t < length s" by simp
  with fc [OF f] show "(rest, s) \<in> measure length" by simp
next
  fix s :: string and c cs
  assume "s = c # cs"
  then show "(cs, s) \<in> measure length" by simp
qed

text \<open>
  \<open>line.match(/^(Language|Framework):/i)\<close>: the line starts with one of the two words and
  a colon, in any letter case.
\<close>

definition is_metadata_line :: "string \<Rightarrow> bool" where
  "is_metadata_line line =
     (startsWith (toLowerCase line) ''language:'' \<or> startsWith (toLowerCase line) ''framework:'')"

definition extractExplanation :: "string \<Rightarrow> string" where
  "extractExplanation output =
     (let lines = split_lines output;
          explanationLines = filter (\<lambda>line.
              \<not> startsWith line [CHR 0x60, CHR 0x60, CHR 0x60]
            \<and> trim line \<noteq> []
            \<and> \<not> is_metadata_line line) lines
      in trim (join_lines explanationLines))"

text \<open>
  \<open>extractSection\<close> searches the first line that contains a keyword once lower-cased, and
  returns the text from that line on, trimmed; without such a line, the whole text trimmed.
  The index loop of the source is the \<open>dropWhile\<close> here.
\<close>

definition extractSection :: "string \<Rightarrow> string list \<Rightarrow> string" where
  "extractSection output keywords =
     (let lines = split_lines output;
          section_lines = dropWhile (\<lambda>line.
              \<not> list_ex (\<lambda>keyword. includes_str (toLowerCase line) keyword) keywords) lines
      in if section_lines \<noteq> [] then trim (join_lines section_lines) else trim output)"

definition extractAnalysis :: "string \<Rightarrow> string" where
  "extractAnalysis output = extractSection output [''analysis'', ''review'', ''assessment'']"

text \<open>
  The two tests of \<open>extractSuggestions\<close>: \<open>/^[-*]\s+/\<close> (a dash or star, then white space)
  and \<open>/^\d+\.\s+/\<close> (digits, a dot, then white space); and its replacement
  \<open>line.replace(/^[-*\d.]\s+/, '')\<close>, which removes ONE character of the class (dash,
  star, digit or dot) and the white space after it, when the line starts so, and otherwise
  leaves the line as it is.
\<close>

definition is_bullet_line :: "string \<Rightarrow> bool" where
  "is_bullet_line line =
     (case line of c # d # _ \<Rightarrow> c \<in> set ''-*'' \<and> is_space d | _ \<Rightarrow> False)"

definition is_numbered_line :: "string \<Rightarrow> bool" where
  "is_numbered_line line =
     (takeWhile is_digit line \<noteq> [] \<and>
      (case dropWhile is_digit line of c # d # _ \<Rightarrow> c = CHR ''.'' \<and> is_space d | _ \<Rightarrow> False))"

definition strip_marker :: "string \<Rightarrow> string" where
  "strip_marker line =
     (case line of
        c # d # rest \<Rightarrow>
          if (c \<in> set ''-*.'' \<or> is_digit c) \<and> is_space d then dropWhile is_space rest else line
      | _ \<Rightarrow> line)"

definition extractSuggestions :: "string \<Rightarrow> string list" where
  "extractSuggestions output =
     (let lines = split_lines output;
          suggestions = map (\<lambda>line. trim (strip_marker line))
                          (filter (\<lambda>line. is_bullet_line line \<or> is_numbered_line line) lines)
      in if length suggestions > 0 then suggestions
         else [extractSection output [''suggestions'', ''recommendations'']])"

definition extractOptimizations :: "string \<Rightarrow> string list" where
  "extractOptimizations output = extractSuggestions output"

definition extractReview :: "string \<Rightarrow> string" where
  "extractReview output = extractSection output [''review'', ''feedback'', ''assessment'']"

definition extractIssues :: "string \<Rightarrow> string list" where
  "extractIssues output = extractSuggestions output"

text \<open>
  The result object: a property that was never assigned is \<open>None\<close>. The fallback tests
  \<open>!result.code && !result.analysis && !result.explanation\<close>, where an absent property
  and the empty string are both falsy.
\<close>

datatype action = Generate | Analyze | Optimize | Review

record ClaudeExecutionResult =
  code :: "string option"
  analysis :: "string option"
  suggestions :: "string list option"
  explanation :: "string option"

definition falsy :: "string option \<Rightarrow> bool" where
  "falsy v = (v = None \<or> v = Some [])"

definition first_block :: "string list \<Rightarrow> string option" where
  "first_block blocks = (case blocks of [] \<Rightarrow> None | b # _ \<Rightarrow> Some b)"

definition parseOutput :: "string \<Rightarrow> action \<Rightarrow> ClaudeExecutionResult" where
  "parseOutput output action =
     (let blocks = codeBlocks output;
          none = \<lparr>code = None, analysis = None, suggestions = None, explanation = None\<rparr>;
          result = (case action of
              Generate \<Rightarrow> none\<lparr>code := first_block blocks,
                                explanation := Some (extractExplanation output)\<rparr>
            | Analyze \<Rightarrow> none\<lparr>analysis := Some (extractAnalysis output),
                               suggestions := Some (extractSuggestions output)\<rparr>
            | Optimize \<Rightarrow> none\<lparr>code := first_block blocks,
                                suggestions := Some (extractOptimizations output)\<rparr>
            | Review \<Rightarrow> none\<lparr>analysis := Some (extractReview output),
                              suggestions := Some (extractIssues output)\<rparr>)
      in if falsy (code result) \<and> falsy (analysis result) \<and> falsy (explanation result)
         then result\<lparr>explanation := Some output\<rparr>
         else result)"

section \<open>Authentication (lib/auth)\<close>

text \<open>
  A request as the handlers read it: \<open>headers.get\<close> by lower-case name (\<open>None\<close> is
  \<open>null\<close>), the connection's address \<open>ip\<close>, and what \<open>request.json()\<close> gives: the
  parsed body, or \<open>Inl\<close> the message of the error it throws. A parsed object is the list
  of its properties, looked up by name; a number is the value of the double that the
  parser returned, a rational.
\<close>

datatype json =
    JNull
  | JBool bool
  | JNum rat
  | JStr string
  | JArr "json list"
  | JObj "(string \<times> json) list"

record NextRequest =
  headers :: "string \<rightharpoonup> string"
  ip :: "string option"
  body :: "string + json"

text \<open>
  \<open>new URL(referer)\<close> belongs to the platform: it is the parameter \<open>new_URL\<close> of
  \<open>validateAuth\<close>, \<open>None\<close> when it throws. Of the parsed URL the code reads \<open>protocol\<close>
  (with its colon) and \<open>hostname\<close>; \<open>port\<close> is the port as the parser keeps it, empty
  when the URL has none or names the default port of its scheme.
\<close>

record URL =
  protocol :: string
  hostname :: string
  port :: string

text \<open>The \<open>SECURITY\<close> constants of lib/constants are parameters of the model.\<close>

record SECURITY =
  API_SECRET :: string
  ALLOWED_ORIGINS :: "string list"

record AuthResult =
  valid :: bool
  clientId :: "string option"
  message :: "string option"

text \<open>\<open>v || d\<close> on a string that may be \<open>null\<close>: the empty string is falsy too.\<close>

definition or_else :: "string option \<Rightarrow> string \<Rightarrow> string" where
  "or_else v d = (case v of None \<Rightarrow> d | Some s \<Rightarrow> if s = [] then d else s)"

text \<open>
  One round of the client hash, \<open>hash = ((hash << 5) - hash) + char; hash = hash & hash\<close>:
  arithmetic on 32-bit integers, read back as signed for \<open>Math.abs\<close>.
\<close>

definition hash_step :: "32 word \<Rightarrow> char \<Rightarrow> 32 word" where
  "hash_step hash c = (push_bit 5 hash - hash) + of_nat (of_char c)"

definition generateClientId :: "NextRequest \<Rightarrow> string" where
  "generateClientId request =
     (let ip' = or_else (ip request) (or_else (headers request ''x-forwarded-for'') ''unknown'');
          userAgent = or_else (headers request ''user-agent'') ''unknown'';
          sessionId = or_else (headers request ''x-session-id'') [];
          rawString = ip' @ ''-'' @ userAgent @ ''-'' @ sessionId;
          hash = foldl hash_step 0 rawString
      in ''client_'' @ digits_radix 36 (nat \<bar>sint hash\<bar>))"

text \<open>
  \<open>validateAuth\<close>; any exception inside its \<open>try\<close> block (the URL constructor is the one
  that can throw) gives the result with the message \<open>Authentication failed\<close>. The test of
  the user agent and of \<open>x-requested-with\<close> only logs a warning and is not part of the
  result.
\<close>

definition auth_failure :: "string \<Rightarrow> AuthResult" where
  "auth_failure m = \<lparr>valid = False, clientId = None, message = Some m\<rparr>"

definition validateAuth :: "SECURITY \<Rightarrow> (string \<Rightarrow> URL option) \<Rightarrow> NextRequest \<Rightarrow> AuthResult" where
  "validateAuth sec new_URL request =
     (let authHeader = or_else (headers request ''authorization'') []
      in if authHeader = [] \<or> \<not> startsWith authHeader ''Bearer ''
         then auth_failure ''Missing or invalid Authorization header''
         else
           (let apiKey = drop 7 authHeader
            in if apiKey = [] \<or> apiKey \<noteq> API_SECRET sec
               then auth_failure ''Invalid API key''
               else
                 (let origin = or_else (headers request ''origin'') [];
                      referer = or_else (headers request ''referer'') []
                  in if origin \<noteq> [] \<and> origin \<notin> set (ALLOWED_ORIGINS sec)
                     then auth_failure ''Origin not allowed''
                     else if referer \<noteq> []
                     then (case new_URL referer of
                             None \<Rightarrow> auth_failure ''Authentication failed''
                           | Some refererUrl \<Rightarrow>
                               (let refererOrigin = protocol refererUrl @ ''//'' @ hostname refererUrl
                                in if refererOrigin \<notin> set (ALLOWED_ORIGINS sec)
                                   then auth_failure ''Referer not allowed''
                                   else \<lparr>valid = True, clientId = Some (generateClientId request),
                                         message = Some ''Authentication successful''\<rparr>))
                     else \<lparr>valid = True, clientId = Some (generateClientId request),
                           message = Some ''Authentication successful''\<rparr>)))"

text \<open>
  The origin of a URL (scheme, host and the port when the URL has one), as an
  \<open>Origin\<close> header or the \<open>origin\<close> property of the parsed URL spells it.
\<close>

definition url_origin :: "URL \<Rightarrow> string" where
  "url_origin u = protocol u @ ''//'' @ hostname u @ (if port u = [] then [] else '':'' @ port u)"


text \<open>What the URL constructor gives on one Referer with an explicit port.\<close>

definition gas_url :: "string \<Rightarrow> URL option" where
  "gas_url s = (if s = ''https://script.google.com:8443/macros''
      then Some \<lparr>protocol = ''https:'', hostname = ''script.google.com'', port = ''8443''\<rparr>
      else None)"

section \<open>ClaudeWrapper: building the prompt and executing\<close>

text \<open>
  The options object handed to \<open>execute\<close>, with the types of lib/types: an absent
  property is \<open>None\<close>. \<open>formatPrompt\<close> tests \<open>language\<close>, \<open>framework\<close> and the two
  flags for truthiness and compares \<open>codeStyle\<close> with \<open>'modern'\<close>.
\<close>

record exec_options =
  includeTests :: "bool option"
  includeComments :: "bool option"
  codeStyle :: "string option"
  maxTokens :: "rat option"

record ClaudeExecutionOptions =
  action :: action
  prompt :: string
  language :: "string option"
  framework :: "string option"
  options :: exec_options

definition formatPrompt :: "ClaudeExecutionOptions \<Rightarrow> string" where
  "formatPrompt opts =
     (let metadata =
            (if or_else (language opts) [] \<noteq> [] then [''Language: '' @ or_else (language opts) []] else [])
          @ (if or_else (framework opts) [] \<noteq> [] then [''Framework: '' @ or_else (framework opts) []] else []);
          prompt1 = (if length metadata > 0
                     then join_lines metadata @ [CHR 0x0A, CHR 0x0A] @ prompt opts
                     else prompt opts);
          instructions =
            (if includeTests (options opts) = Some True then [''Please include unit tests.''] else [])
          @ (if includeComments (options opts) = Some True
             then [''Please include detailed comments.''] else [])
          @ (if codeStyle (options opts) = Some ''modern''
             then [''Use modern language features and best practices.''] else [])
      in if length instructions > 0
         then prompt1 @ [CHR 0x0A, CHR 0x0A] @ join_lines instructions
         else prompt1)"

fun actionPrompt :: "action \<Rightarrow> string" where
  "actionPrompt Generate = ''Generate code based on the following requirements:''"
| "actionPrompt Analyze = ''Analyze the following code and provide insights:''"
| "actionPrompt Optimize = ''Optimize the following code for better performance and readability:''"
| "actionPrompt Review = ''Review the following code and provide feedback:''"

definition buildCommandAndPrompt :: "action \<Rightarrow> string \<Rightarrow> string \<times> string" where
  "buildCommandAndPrompt act fileContent =
     (''claude --print'', actionPrompt act @ [CHR 0x0A, CHR 0x0A] @ fileContent)"

text \<open>
  What \<open>execute\<close> meets outside the program: \<open>staging\<close> is the message of the error
  that creating the temporary directory, or writing or reading the prompt file, throws
  (\<open>None\<close> when they succeed, and then the file read back is the prompt written);
  \<open>tool command prompt attempt\<close> is what the process spawned for an attempt does. The
  \<open>finally\<close> block removes the directory and swallows its own failures, so it does not
  change the result.
\<close>

record world =
  staging :: "string option"
  tool :: "string \<Rightarrow> string \<Rightarrow> int \<Rightarrow> proc_run"

definition execute ::
  "ClaudeWrapper \<Rightarrow> world \<Rightarrow> ClaudeExecutionOptions \<Rightarrow> string + ClaudeExecutionResult" where
  "execute W wd opts =
     (case staging wd of
        Some failure \<Rightarrow> Inl failure
      | None \<Rightarrow>
          (let formattedPrompt = formatPrompt opts;
               (command, fullPrompt) = buildCommandAndPrompt (action opts) formattedPrompt
           in case fst (executeWithRetry W (tool wd command fullPrompt)) of
                Inl failure \<Rightarrow> Inl failure
              | Inr output \<Rightarrow> Inr (parseOutput output (action opts))))"

section \<open>The route handler (app/api/claude-code/route)\<close>

text \<open>
  Modelled from the spec: the \<open>ERROR_CODES\<close> table of lib/constants is not among the
  sources. Its values are the closed set of error kinds of section 7 of the specification;
  the handler refers to four of them, under the names kept here.
\<close>

datatype error_code =
    UNAUTHORIZED
  | RATE_LIMIT_EXCEEDED
  | INVALID_REQUEST
  | TIMEOUT_ERROR
  | EXECUTION_ERROR
  | INTERNAL_SERVER_ERROR

text \<open>\<open>validateRequest\<close>. Its result has the fields \<open>valid\<close> and \<open>message\<close>, prefixed here
  since the authentication result has fields of the same names.\<close>

record ValidationResult =
  vr_valid :: bool
  vr_message :: "string option"

definition invalid :: "string \<Rightarrow> ValidationResult" where
  "invalid m = \<lparr>vr_valid = False, vr_message = Some m\<rparr>"

text \<open>
  Reading a property of a parsed JSON value (\<open>None\<close> is \<open>undefined\<close>; an array has
  none of the names the handler reads), JavaScript truthiness, and \<open>typeof\<close>.
\<close>

fun property :: "json \<Rightarrow> string \<Rightarrow> json option" where
  "property (JObj ps) name = map_of ps name"
| "property _ name = None"

fun truthy :: "json option \<Rightarrow> bool" where
  "truthy None = False"
| "truthy (Some JNull) = False"
| "truthy (Some (JBool b)) = b"
| "truthy (Some (JNum n)) = (n \<noteq> 0)"
| "truthy (Some (JStr s)) = (s \<noteq> [])"
| "truthy (Some (JArr _)) = True"
| "truthy (Some (JObj _)) = True"

fun is_string :: "json option \<Rightarrow> bool" where
  "is_string (Some (JStr _)) = True"
| "is_string _ = False"

fun is_object :: "json option \<Rightarrow> bool" where
  "is_object (Some (JArr _)) = True"
| "is_object (Some (JObj _)) = True"
| "is_object (Some JNull) = True"
| "is_object _ = False"

fun is_boolean :: "json option \<Rightarrow> bool" where
  "is_boolean (Some (JBool _)) = True"
| "is_boolean _ = False"

definition validateOptions :: "json \<Rightarrow> ValidationResult" where
  "validateOptions opts =
     (let includeTests' = property opts ''includeTests'';
          includeComments' = property opts ''includeComments'';
          codeStyle' = property opts ''codeStyle'';
          maxTokens' = property opts ''maxTokens''
      in if includeTests' \<noteq> None \<and> \<not> is_boolean includeTests'
         then invalid ''includeTests must be a boolean''
         else if includeComments' \<noteq> None \<and> \<not> is_boolean includeComments'
         then invalid ''includeComments must be a boolean''
         else if truthy codeStyle' \<and> is_string codeStyle'
                 \<and> codeStyle' \<notin> set [Some (JStr ''modern''), Some (JStr ''legacy'')]
         then invalid ''codeStyle must be either \"modern\" or \"legacy\"''
         else if maxTokens' \<noteq> None
                 \<and> (case maxTokens' of Some (JNum n) \<Rightarrow> n < 100 \<or> n > 8192 | _ \<Rightarrow> True)
         then invalid ''maxTokens must be a number between 100 and 8192''
         else \<lparr>vr_valid = True, vr_message = None\<rparr>)"

definition validateRequest :: "nat \<Rightarrow> json \<Rightarrow> ValidationResult" where
  "validateRequest MAX_PROMPT_LENGTH body' =
     (if \<not> is_object (Some body') \<or> body' = JNull
      then invalid ''Request body must be an object''
      else if \<not> truthy (property body' ''action'')
              \<or> property body' ''action'' \<notin> set (map (\<lambda>a. Some (JStr a))
                     [''generate'', ''analyze'', ''optimize'', ''review''])
      then invalid ''Invalid or missing action. Must be: generate, analyze, optimize, or review''
      else (case property body' ''prompt'' of
              Some (JStr p) \<Rightarrow>
                if p = [] then invalid ''Prompt is required and must be a string''
                else if length (trim p) = 0 then invalid ''Prompt cannot be empty''
                else if length p > MAX_PROMPT_LENGTH
                then invalid (''Prompt must be under '' @ show_int (int MAX_PROMPT_LENGTH) @ '' characters'')
                else if truthy (property body' ''language'') \<and> \<not> is_string (property body' ''language'')
                then invalid ''Language must be a string''
                else if truthy (property body' ''framework'') \<and> \<not> is_string (property body' ''framework'')
                then invalid ''Framework must be a string''
                else if truthy (property body' ''options'')
                then (if \<not> is_object (property body' ''options'')
                      then invalid ''Options must be an object''
                      else validateOptions (the (property body' ''options'')))
                else \<lparr>vr_valid = True, vr_message = None\<rparr>
            | _ \<Rightarrow> invalid ''Prompt is required and must be a string''))"

text \<open>
  The handler passes \<open>body.action\<close>, \<open>body.prompt\<close>, \<open>body.language\<close>,
  \<open>body.framework\<close> and \<open>body.options || {}\<close> to \<open>execute\<close>. It does so only for a body
  that \<open>validateRequest\<close> accepted: the action is then one of the four names, and a
  language, framework, flag, code style or token budget that is not of its declared type is
  absent or falsy, which \<open>execute\<close> treats alike; such a value reads as \<open>None\<close>.
\<close>

definition action_of :: "json option \<Rightarrow> action" where
  "action_of v =
     (if v = Some (JStr ''analyze'') then Analyze
      else if v = Some (JStr ''optimize'') then Optimize
      else if v = Some (JStr ''review'') then Review
      else Generate)"

fun as_string :: "json option \<Rightarrow> string option" where
  "as_string (Some (JStr s)) = Some s"
| "as_string _ = None"

fun as_boolean :: "json option \<Rightarrow> bool option" where
  "as_boolean (Some (JBool b)) = Some b"
| "as_boolean _ = None"

fun as_number :: "json option \<Rightarrow> rat option" where
  "as_number (Some (JNum n)) = Some n"
| "as_number _ = None"

definition execution_options :: "json \<Rightarrow> ClaudeExecutionOptions" where
  "execution_options body' =
     (let opts = (if truthy (property body' ''options'') then the (property body' ''options'')
                  else JObj [])
      in \<lparr>action = action_of (property body' ''action''),
          prompt = (case as_string (property body' ''prompt'') of None \<Rightarrow> [] | Some p \<Rightarrow> p),
          language = as_string (property body' ''language''),
          framework = as_string (property body' ''framework''),
          options = \<lparr>includeTests = as_boolean (property opts ''includeTests''),
                     includeComments = as_boolean (property opts ''includeComments''),
                     codeStyle = as_string (property opts ''codeStyle''),
                     maxTokens = as_number (property opts ''maxTokens'')\<rparr>\<rparr>)"

text \<open>
  The response envelope: \<open>success\<close>, \<open>data\<close> and \<open>error\<close> (code and message). The
  metadata (two clock readings and the session identifier), the HTTP status and the
  headers are left out: they do not depend on the stage that answers.
\<close>

record ClaudeCodeResponse =
  success :: bool
  data :: "ClaudeExecutionResult option"
  error :: "(error_code \<times> string) option"

text \<open>
  What the handler reads besides the request and the limiter: the constants, the URL
  constructor, whether \<open>NODE_ENV\<close> is \<open>development\<close>, the wrapper and its surroundings.
\<close>

record config =
  security :: SECURITY
  new_URL :: "string \<Rightarrow> URL option"
  development :: bool
  MAX_PROMPT_LENGTH :: nat
  claudeWrapper :: ClaudeWrapper
  outside :: world

definition failure :: "error_code \<Rightarrow> string \<Rightarrow> ClaudeCodeResponse" where
  "failure c m = \<lparr>success = False, data = None, error = Some (c, m)\<rparr>"

text \<open>The \<open>catch\<close> block of the handler, for a thrown error with message \<open>m\<close>.\<close>

definition caught :: "config \<Rightarrow> string \<Rightarrow> ClaudeCodeResponse" where
  "caught cfg m =
     failure INTERNAL_SERVER_ERROR (if development cfg then m else ''An unexpected error occurred'')"

definition rate_limit_message :: "RateLimitResult \<Rightarrow> string" where
  "rate_limit_message r =
     ''Rate limit exceeded. Remaining: '' @ show_int (remaining r) @ '', Reset in: ''
     @ (case resetTime r of Infinity \<Rightarrow> ''Infinity'' | Num n \<Rightarrow> show_int (- ((- n) div 1000)))
     @ ''s''"

text \<open>
  \<open>POST\<close>, with the clock reading of the limiter as \<open>now\<close>. The result is the envelope
  and the limiter after the request.
\<close>

definition POST ::
  "config \<Rightarrow> RateLimiter \<Rightarrow> int \<Rightarrow> NextRequest \<Rightarrow> ClaudeCodeResponse \<times> RateLimiter" where
  "POST cfg rateLimiter now request =
     (let authResult = validateAuth (security cfg) (new_URL cfg) request
      in if \<not> valid authResult
         then (failure UNAUTHORIZED (or_else (message authResult) ''Invalid authentication''),
               rateLimiter)
         else
           (let cid = or_else (clientId authResult) ''anonymous'';
                (rateLimitResult, rateLimiter1) = check rateLimiter cid now
            in if \<not> allowed rateLimitResult
               then (failure RATE_LIMIT_EXCEEDED (rate_limit_message rateLimitResult), rateLimiter1)
               else
                 (case body request of
                    Inl thrown \<Rightarrow> (caught cfg thrown, rateLimiter1)
                  | Inr body' \<Rightarrow>
                      (let validationResult = validateRequest (MAX_PROMPT_LENGTH cfg) body'
                       in if \<not> vr_valid validationResult
                          then (failure INVALID_REQUEST
                                  (or_else (vr_message validationResult) ''Invalid request format''),
                                rateLimiter1)
                          else
                            (case execute (claudeWrapper cfg) (outside cfg) (execution_options body') of
                               Inl thrown \<Rightarrow> (caught cfg thrown, rateLimiter1)
                             | Inr result \<Rightarrow>
                                 (\<lparr>success = True, data = Some result, error = None\<rparr>,
                                  recordSuccess rateLimiter1 cid))))))"

text \<open>A deployment and requests to evaluate the handler on.\<close>

definition demo_security :: SECURITY where
  "demo_security =
     \<lparr>API_SECRET = ''s3cret'',
      ALLOWED_ORIGINS = [''https://script.google.com'', ''https://docs.google.com'']\<rparr>"

definition demo_config :: "bool \<Rightarrow> (string \<Rightarrow> string \<Rightarrow> int \<Rightarrow> proc_run) \<Rightarrow> config" where
  "demo_config dev t =
     \<lparr>security = demo_security, new_URL = gas_url, development = dev,
      MAX_PROMPT_LENGTH = 10000,
      claudeWrapper = \<lparr>timeout = 5000, maxRetries = 2, model = ''sonnet''\<rparr>,
      outside = \<lparr>staging = None, tool = t\<rparr>\<rparr>"

definition demo_headers :: "string \<rightharpoonup> string" where
  "demo_headers = [''authorization'' \<mapsto> ''Bearer s3cret'']"

definition demo_request :: "string + json \<Rightarrow> NextRequest" where
  "demo_request b = \<lparr>headers = demo_headers, ip = Some ''203.0.113.7'', body = b\<rparr>"

definition demo_limiter :: RateLimiter where
  "demo_limiter =
     \<lparr>requests = Map.empty, windowMs = 60000, maxRequests = 2, skipSuccessfulRequests = False\<rparr>"

definition good_body :: json where
  "good_body = JObj [(''action'', JStr ''generate''), (''prompt'', JStr ''add two numbers''),
                     (''language'', JStr ''javascript'')]"

definition bad_body :: json where
  "bad_body = JObj [(''action'', JStr ''generate'')]"

definition hung_tool :: "string \<Rightarrow> string \<Rightarrow> int \<Rightarrow> proc_run" where
  "hung_tool command p attempt = Hung"

definition echo_tool :: "string \<Rightarrow> string \<Rightarrow> int \<Rightarrow> proc_run" where
  "echo_tool command p attempt = Closed (Some 0) ''return a + b'' []"

section \<open>Properties of the limiter\<close>

text \<open>
  C1. With a window of 60000 ms and a budget of 2, checks for one client (whose bucket does
  not exist yet) at times 0, 10, 20 and 61000 give: allowed with 1 remaining; allowed with 0
  remaining; denied with 0 remaining and a reset time of 59980 ms; allowed again.
\<close>

theorem C1_scenario:
  "(let L0 = \<lparr>requests = m(c := None), windowMs = 60000, maxRequests = 2,
               skipSuccessfulRequests = sk\<rparr>;
        (r1, L1) = check L0 c 0;
        (r2, L2) = check L1 c 10;
        (r3, L3) = check L2 c 20;
        (r4, L4) = check L3 c 61000
    in allowed r1 \<and> remaining r1 = 1
     \<and> allowed r2 \<and> remaining r2 = 0
     \<and> \<not> allowed r3 \<and> remaining r3 = 0 \<and> resetTime r3 = Num 59980
     \<and> allowed r4)"
  by (simp add: check_def bucket_def Let_def)

text \<open>
  C10. A check that is denied leaves the limiter as it was: nothing is appended for the
  denied request and the pruned list is not stored.
\<close>

theorem C10_denied_keeps_store:
  "check L cid now = (r, L') \<Longrightarrow> \<not> allowed r \<Longrightarrow> L' = L"
  by (auto simp: check_def Let_def split: if_splits)

text \<open>A client with two requests in the window is denied, and nothing changes.\<close>

theorem C10_denied_keeps_store_witness:
  "(let L = \<lparr>requests = [''c1'' \<mapsto> [0, 10]], windowMs = 60000, maxRequests = 2,
              skipSuccessfulRequests = False\<rparr>
    in \<not> allowed (fst (check L ''c1'' 20)) \<and> snd (check L ''c1'' 20) = L)"
  using C10_denied_keeps_store
    [of "\<lparr>requests = [''c1'' \<mapsto> [0, 10]], windowMs = 60000, maxRequests = 2,
              skipSuccessfulRequests = False\<rparr>" "''c1''" 20]
  by (simp add: check_def bucket_def Let_def)

text \<open>
  C9. Whenever a check is allowed, the client's stored timestamps that lie in the trailing
  window number at most the budget, after the call as well as (strictly below it) before;
  and the verdict depends on the stored timestamps only through those inside the window:
  any bucket with the same timestamps newer than \<open>now - windowMs\<close> gets the same verdict.
\<close>

theorem C9_allowed_within_budget:
  assumes "check L cid now = (r, L')" and "allowed r"
  shows "int (length (in_window L now (bucket L' cid))) \<le> maxRequests L
       \<and> int (length (in_window L now (bucket L cid))) < maxRequests L
       \<and> (\<forall>ts. in_window L now ts = in_window L now (bucket L cid) \<longrightarrow>
             fst (check (L\<lparr>requests := (requests L)(cid \<mapsto> ts)\<rparr>) cid now) = r)"
proof -
  let ?kept = "in_window L now (bucket L cid)"
  from assms have small: "int (length ?kept) < maxRequests L"
    by (auto simp: check_def in_window_def Let_def split: if_splits)
  from assms small have L': "bucket L' cid = ?kept @ [now]"
    by (auto simp: check_def in_window_def bucket_def Let_def split: if_splits)
  have "length (in_window L now (?kept @ [now])) \<le> length (?kept @ [now])"
    unfolding in_window_def by (rule length_filter_le)
  with small L' have after: "int (length (in_window L now (bucket L' cid))) \<le> maxRequests L"
    by simp
  from assms small have r: "r = \<lparr>allowed = True, remaining = maxRequests L - int (length (?kept @ [now])),
                    resetTime = Num (windowMs L)\<rparr>"
    by (auto simp: check_def in_window_def Let_def split: if_splits)
  have same: "fst (check (L\<lparr>requests := (requests L)(cid \<mapsto> ts)\<rparr>) cid now) = r"
    if "in_window L now ts = ?kept" for ts
    using that small unfolding r by (simp add: check_def in_window_def bucket_def Let_def)
  from small after same show ?thesis by blast
qed

text \<open>One stored timestamp has left the window; buckets that differ outside it agree.\<close>

theorem C9_allowed_within_budget_witness:
  "(let L = \<lparr>requests = [''c1'' \<mapsto> [0, 10]], windowMs = 60000, maxRequests = 2,
              skipSuccessfulRequests = False\<rparr>;
        (r, L') = check L ''c1'' 60005
    in allowed r
     \<and> bucket L' ''c1'' = [10, 60005]
     \<and> int (length (in_window L 60005 (bucket L' ''c1''))) \<le> maxRequests L
     \<and> in_window L 60005 [5, 10, 3] = in_window L 60005 (bucket L ''c1'')
     \<and> fst (check (L\<lparr>requests := (requests L)(''c1'' \<mapsto> [5, 10, 3])\<rparr>) ''c1'' 60005) = r)"
  using C9_allowed_within_budget
    [of "\<lparr>requests = [''c1'' \<mapsto> [0, 10]], windowMs = 60000, maxRequests = 2,
              skipSuccessfulRequests = False\<rparr>" "''c1''" 60005]
  by (simp add: check_def bucket_def in_window_def Let_def)

section \<open>Properties of the retry loop\<close>

declare retry_loop.simps [simp del]

text \<open>The loop from any attempt on, when all remaining attempts fail, and when one succeeds.\<close>

lemma retry_loop_all_fail:
  assumes "\<forall>a. attempt \<le> a \<and> a \<le> maxRetries W \<longrightarrow> isl (executeClaude W (runs a))"
  shows "retry_loop W runs attempt lastError waits =
     (Inl (''Claude CLI failed after '' @ show_int (maxRetries W) @ '' attempts: ''
           @ (if attempt \<le> maxRetries W then projl (executeClaude W (runs (maxRetries W)))
              else (case lastError of None \<Rightarrow> ''undefined'' | Some m \<Rightarrow> m))),
      waits @ map waitTime [attempt..maxRetries W - 1])"
  using assms
proof (induction W runs attempt lastError waits rule: retry_loop.induct)
  case (1 W runs attempt lastError waits)
  show ?case
  proof (cases "attempt \<le> maxRetries W")
    case False
    then show ?thesis by (simp add: retry_loop.simps [of W runs attempt])
  next
    case True
    with "1.prems" obtain e where e: "executeClaude W (runs attempt) = Inl e"
      by (cases "executeClaude W (runs attempt)") auto
    have step: "retry_loop W runs attempt lastError waits =
        retry_loop W runs (attempt + 1) (Some e)
          (if attempt < maxRetries W then waits @ [waitTime attempt] else waits)"
      using True e by (simp add: retry_loop.simps [of W runs attempt])
    have IH: "retry_loop W runs (attempt + 1) (Some e)
          (if attempt < maxRetries W then waits @ [waitTime attempt] else waits) =
       (Inl (''Claude CLI failed after '' @ show_int (maxRetries W) @ '' attempts: ''
           @ (if attempt + 1 \<le> maxRetries W then projl (executeClaude W (runs (maxRetries W)))
              else (case Some e of None \<Rightarrow> ''undefined'' | Some m \<Rightarrow> m))),
        (if attempt < maxRetries W then waits @ [waitTime attempt] else waits)
          @ map waitTime [attempt + 1..maxRetries W - 1])"
      using "1.IH" [OF True e] "1.prems" True by simp
    show ?thesis
    proof (cases "attempt < maxRetries W")
      case True
      then have "[attempt..maxRetries W - 1] = attempt # [attempt + 1..maxRetries W - 1]"
        by (simp add: upto_rec1)
      with True step IH show ?thesis by simp
    next
      case False
      with True have eq: "attempt = maxRetries W" by simp
      with step IH e show ?thesis by simp
    qed
  qed
qed

lemma retry_loop_success:
  assumes "\<forall>a. attempt \<le> a \<and> a < j \<longrightarrow> isl (executeClaude W (runs a))"
    and "executeClaude W (runs j) = Inr output"
    and "attempt \<le> j" and "j \<le> maxRetries W"
  shows "retry_loop W runs attempt lastError waits =
     (Inr output, waits @ map waitTime [attempt..j - 1])"
  using assms
proof (induction W runs attempt lastError waits rule: retry_loop.induct)
  case (1 W runs attempt lastError waits)
  show ?case
  proof (cases "attempt = j")
    case True
    with "1.prems" show ?thesis by (simp add: retry_loop.simps [of W runs j])
  next
    case False
    with "1.prems" have lt: "attempt < j" and le: "attempt \<le> maxRetries W" and lt': "attempt < maxRetries W"
      by auto
    with "1.prems" obtain e where e: "executeClaude W (runs attempt) = Inl e"
      by (cases "executeClaude W (runs attempt)") auto
    have step: "retry_loop W runs attempt lastError waits =
        retry_loop W runs (attempt + 1) (Some e) (waits @ [waitTime attempt])"
      using le lt' e by (simp add: retry_loop.simps [of W runs attempt])
    have IH: "retry_loop W runs (attempt + 1) (Some e) (waits @ [waitTime attempt]) =
       (Inr output, (waits @ [waitTime attempt]) @ map waitTime [attempt + 1..j - 1])"
      using "1.IH" [OF le e] "1.prems" lt lt' by simp
    have "[attempt..j - 1] = attempt # [attempt + 1..j - 1]"
      using lt by (simp add: upto_rec1)
    with step IH show ?thesis by simp
  qed
qed

lemma executeWithRetry_all_fail:
  assumes "\<forall>a. 1 \<le> a \<and> a \<le> maxRetries W \<longrightarrow> isl (executeClaude W (runs a))"
  shows "executeWithRetry W runs =
      (Inl (''Claude CLI failed after '' @ show_int (maxRetries W) @ '' attempts: ''
            @ (if 1 \<le> maxRetries W then projl (executeClaude W (runs (maxRetries W)))
               else ''undefined'')),
       map waitTime [1..maxRetries W - 1])"
  using retry_loop_all_fail [OF assms, of None "[]"] by (simp add: executeWithRetry_def)

text \<open>
  C2. If the subprocess fails on exactly the first \<open>k\<close> attempts and succeeds on the next,
  \<open>executeWithRetry\<close> succeeds if and only if \<open>k + 1 \<le> maxRetries\<close>, and then it returns
  that attempt's output after the waits \<open>1000 * 2^(attempt - 1)\<close> for the attempts
  \<open>1..k\<close>. If every one of the \<open>maxRetries \<ge> 1\<close> attempts fails, it fails with an error
  whose message ends with the message of the last attempt's failure, after the waits
  \<open>1000 * 2^(attempt - 1)\<close> for the attempts \<open>1..maxRetries - 1\<close>, one between each two
  consecutive attempts.
\<close>

theorem C2_retry_convergence:
  fixes k :: nat
  shows "((\<forall>a. 1 \<le> a \<and> a \<le> int k \<longrightarrow> isl (executeClaude W (runs a)))
          \<and> executeClaude W (runs (int k + 1)) = Inr output
          \<longrightarrow> (\<not> isl (fst (executeWithRetry W runs)) \<longleftrightarrow> int k + 1 \<le> maxRetries W)
            \<and> (int k + 1 \<le> maxRetries W \<longrightarrow>
                 executeWithRetry W runs =
                   (Inr output, map (\<lambda>attempt. 1000 * 2 ^ nat (attempt - 1)) [1..int k])))
       \<and> (1 \<le> maxRetries W
          \<and> (\<forall>a. 1 \<le> a \<and> a \<le> maxRetries W \<longrightarrow> isl (executeClaude W (runs a)))
          \<longrightarrow> executeWithRetry W runs =
                (Inl (''Claude CLI failed after '' @ show_int (maxRetries W) @ '' attempts: ''
                      @ projl (executeClaude W (runs (maxRetries W)))),
                 map (\<lambda>attempt. 1000 * 2 ^ nat (attempt - 1)) [1..maxRetries W - 1]))"
proof -
  have wt: "waitTime = (\<lambda>attempt. 1000 * 2 ^ nat (attempt - 1))"
    by (rule ext) (simp add: waitTime_def)
  note exhausted = executeWithRetry_all_fail [of W runs]
  have part1: "(\<not> isl (fst (executeWithRetry W runs)) \<longleftrightarrow> int k + 1 \<le> maxRetries W)
       \<and> (int k + 1 \<le> maxRetries W \<longrightarrow>
            executeWithRetry W runs = (Inr output, map waitTime [1..int k]))"
    if fails: "\<forall>a. 1 \<le> a \<and> a \<le> int k \<longrightarrow> isl (executeClaude W (runs a))"
      and ok: "executeClaude W (runs (int k + 1)) = Inr output"
  proof (cases "int k + 1 \<le> maxRetries W")
    case True
    from fails have "\<forall>a. 1 \<le> a \<and> a < int k + 1 \<longrightarrow> isl (executeClaude W (runs a))"
      by simp
    from retry_loop_success [OF this ok _ True, of None "[]"]
    have "executeWithRetry W runs = (Inr output, map waitTime [1..int k])"
      by (simp add: executeWithRetry_def)
    with True show ?thesis by simp
  next
    case False
    with fails have "\<forall>a. 1 \<le> a \<and> a \<le> maxRetries W \<longrightarrow> isl (executeClaude W (runs a))"
      by simp
    from exhausted [OF this] False show ?thesis by simp
  qed
  from part1 exhausted show ?thesis unfolding wt by simp
qed

text \<open>Three attempts allowed: a tool that succeeds on the third, and one that never does.\<close>

theorem C2_retry_convergence_witness:
  "(let W = \<lparr>timeout = 5000, maxRetries = 3, model = ''m''\<rparr>;
        late = (\<lambda>a::int. if a = 1 then Hung
                  else if a = 2 then Closed (Some 1) [] ''boom''
                  else Closed (Some 0) ''done'' []);
        never = (\<lambda>a::int. if a = 3 then SpawnError ''spawn claude ENOENT'' else Hung)
    in executeWithRetry W late = (Inr ''done'', [1000, 2000])
     \<and> executeWithRetry W never =
         (Inl ''Claude CLI failed after 3 attempts: spawn claude ENOENT'', [1000, 2000]))"
  using C2_retry_convergence
      [of 2 "\<lparr>timeout = 5000, maxRetries = 3, model = ''m''\<rparr>"
          "\<lambda>a::int. if a = 1 then Hung
                  else if a = 2 then Closed (Some 1) [] ''boom''
                  else Closed (Some 0) ''done'' []" "''done''"]
    C2_retry_convergence
      [of 0 "\<lparr>timeout = 5000, maxRetries = 3, model = ''m''\<rparr>"
          "\<lambda>a::int. if a = 3 then SpawnError ''spawn claude ENOENT'' else Hung" "''x''"]
  by (simp add: upto_rec1 show_int_def digit_char_def)

section \<open>Properties of the parser\<close>

declare codeBlocks.simps [simp del]

lemmas parse_defs =
  parseOutput_def first_block_def falsy_def extractExplanation_def extractSection_def
  extractAnalysis_def extractReview_def extractSuggestions_def extractOptimizations_def
  extractIssues_def is_bullet_line_def is_numbered_line_def strip_marker_def
  is_metadata_line_def trim_def is_space_def is_digit_def toLowerCase_def startsWith_def
  match_fence_def fence_close_def

lemma codeBlocks_Nil: "codeBlocks [] = []"
  by (simp add: codeBlocks.simps [of "[]"] match_fence_def startsWith_def)

text \<open>
  C5. Under the optimize action the line \<open>1. improve x\<close> is taken as a list line, but the
  marker replacement removes a single character followed by white space, and here the first
  character is followed by the dot: the suggestion is the whole line, marker included.
\<close>

theorem C5_numbered_marker_kept:
  "suggestions (parseOutput ''1. improve x'' Optimize) = Some [''1. improve x'']"
  by (simp add: parse_defs Let_def)

text \<open>The bullet lines of the same claim do lose their marker.\<close>

lemma bullets_stripped:
  "suggestions (parseOutput (''- a'' @ [CHR 0x0A] @ ''- b'') Optimize) = Some [''a'', ''b'']"
  by (simp add: parse_defs Let_def)

text \<open>
  C7. Parsing the empty string gives, for every action, a result whose
  explanation is the empty string and whose code is not set. Under generate no other field
  is set; under optimize, analyze and review the suggestions are the one-element list
  holding the empty string, and under analyze and review the analysis is the empty string.
  The parser is a total function, so no action raises.
\<close>

theorem C7_empty_input:
  "parseOutput [] Generate =
     \<lparr>code = None, analysis = None, suggestions = None, explanation = Some []\<rparr>
   \<and> parseOutput [] Optimize =
     \<lparr>code = None, analysis = None, suggestions = Some [[]], explanation = Some []\<rparr>
   \<and> parseOutput [] Analyze =
     \<lparr>code = None, analysis = Some [], suggestions = Some [[]], explanation = Some []\<rparr>
   \<and> parseOutput [] Review =
     \<lparr>code = None, analysis = Some [], suggestions = Some [[]], explanation = Some []\<rparr>"
  by (simp add: parse_defs codeBlocks_Nil)

text \<open>Under optimize the empty input does set a field besides the explanation.\<close>

theorem C7_counterexample:
  "\<not> (explanation (parseOutput [] Optimize) = Some []
      \<and> code (parseOutput [] Optimize) = None
      \<and> analysis (parseOutput [] Optimize) = None
      \<and> suggestions (parseOutput [] Optimize) = None)"
  by (simp add: parse_defs codeBlocks_Nil)

text \<open>
  A content without a line feed followed by three backquotes is found whole: the closing
  fence cannot start inside it, nor overlap its end, since the only line feed of the closing
  fence is its first character.
\<close>

lemma find_close_content:
  "\<not> includes_str X fence_close \<Longrightarrow> find_close (X @ fence_close @ post) = Some (X, post)"
proof (induction X)
  case Nil
  show ?case by (simp add: fence_close_def startsWith_def)
next
  case (Cons c cs)
  from Cons.prems have no: "\<not> startsWith (c # cs) fence_close" and rest: "\<not> includes_str cs fence_close"
    by simp_all
  have "\<not> startsWith (c # cs @ fence_close @ post) fence_close"
  proof (cases cs)
    case Nil
    then show ?thesis by (simp add: startsWith_def fence_close_def)
  next
    case (Cons a as)
    note cs = this
    show ?thesis
    proof (cases as)
      case Nil
      with cs show ?thesis by (simp add: startsWith_def fence_close_def)
    next
      case (Cons b bs)
      note as = this
      show ?thesis
      proof (cases bs)
        case Nil
        with cs as show ?thesis by (simp add: startsWith_def fence_close_def)
      next
        case (Cons d ds)
        with cs as no show ?thesis by (simp add: startsWith_def fence_close_def)
      qed
    qed
  qed
  with Cons.IH [OF rest] show ?case by simp
qed

lemma match_fence_block:
  assumes "list_all is_word tag" and "\<not> includes_str X fence_close"
  shows "match_fence (''```'' @ tag @ [CHR 0x0A] @ X @ fence_close @ post) = Some (X, post)"
proof -
  have "dropWhile is_word (tag @ CHR 0x0A # r) = CHR 0x0A # r" for r
    using assms(1) by (induction tag) (simp_all add: is_word_def)
  with find_close_content [OF assms(2)] show ?thesis
    by (simp add: match_fence_def startsWith_def)
qed

lemma codeBlocks_skip:
  "CHR 0x60 \<notin> set pre \<Longrightarrow> codeBlocks (pre @ s) = codeBlocks s"
proof (induction pre)
  case Nil
  show ?case by simp
next
  case (Cons p ps)
  then have "match_fence (p # ps @ s) = None"
    by (auto simp: match_fence_def startsWith_def)
  with Cons show ?case by (simp add: codeBlocks.simps [of "p # ps @ s"])
qed

text \<open>
  The first block is taken as it stands. For a text made of a prefix without backquotes, an
  opening fence with a language hint of word characters, a line feed, a content \<open>X\<close> that
  holds no line feed followed by three backquotes, the closing fence, and anything after
  it, parsing under generate or optimize gives \<open>code = X\<close>, white space included.
\<close>

lemma first_block_verbatim:
  assumes "CHR 0x60 \<notin> set pre" and "list_all is_word tag"
    and "\<not> includes_str X fence_close" and "act = Generate \<or> act = Optimize"
  shows "code (parseOutput (pre @ ''```'' @ tag @ [CHR 0x0A] @ X @ fence_close @ post) act) = Some X"
proof -
  let ?block = "''```'' @ tag @ [CHR 0x0A] @ X @ fence_close @ post"
  have "codeBlocks (pre @ ?block) = codeBlocks ?block"
    using assms(1) by (rule codeBlocks_skip)
  also have "\<dots> = X # codeBlocks post"
    by (subst codeBlocks.simps)
       (simp only: match_fence_block [OF assms(2,3)] option.case prod.case)
  finally have "first_block (codeBlocks (pre @ ?block)) = Some X"
    by (simp add: first_block_def)
  with assms(4) show ?thesis
    by (auto simp: parseOutput_def Let_def)
qed

text \<open>
  C6. The text that is one fenced block whose only line is \<open>foo\<close> between two spaces on
  each side: under generate and under optimize the code is that line with its four
  spaces, while the content with leading and trailing white space removed is \<open>foo\<close>.
\<close>

theorem C6_code_not_trimmed:
  "code (parseOutput (''```js'' @ [CHR 0x0A] @ ''  foo  '' @ [CHR 0x0A] @ ''```'') Generate)
     = Some ''  foo  ''
   \<and> code (parseOutput (''```js'' @ [CHR 0x0A] @ ''  foo  '' @ [CHR 0x0A] @ ''```'') Optimize)
     = Some ''  foo  ''
   \<and> trim ''  foo  '' = ''foo''"
  by code_simp

section \<open>Properties of the authentication\<close>

text \<open>
  C8. With the allow-list of the deployment, a valid key, no Origin header and the Referer
  \<open>https://script.google.com:8443/macros\<close>, authentication succeeds, although the origin
  of that Referer, port included, is not in the allow-list: the code compares
  \<open>protocol//hostname\<close>, which drops the port.
\<close>

theorem C8_referer_port_dropped:
  "valid (validateAuth demo_security gas_url
            \<lparr>headers = [''authorization'' \<mapsto> ''Bearer s3cret'',
                        ''referer'' \<mapsto> ''https://script.google.com:8443/macros''],
             ip = None, body = Inl []\<rparr>)
   \<and> headers \<lparr>headers = [''authorization'' \<mapsto> ''Bearer s3cret'',
                        ''referer'' \<mapsto> ''https://script.google.com:8443/macros''],
             ip = None, body = Inl []\<rparr> ''origin'' = None
   \<and> map_option url_origin (gas_url ''https://script.google.com:8443/macros'')
       = Some ''https://script.google.com:8443''
   \<and> ''https://script.google.com:8443'' \<notin> set (ALLOWED_ORIGINS demo_security)"
  by (simp add: validateAuth_def demo_security_def gas_url_def url_origin_def or_else_def
      startsWith_def auth_failure_def Let_def)

section \<open>Properties of the route handler\<close>

text \<open>The handler, one lemma for each stage that can answer.\<close>

lemma POST_unauthorized:
  assumes "\<not> valid (validateAuth (security cfg) (new_URL cfg) request)"
  shows "POST cfg L now request =
     (failure UNAUTHORIZED
        (or_else (message (validateAuth (security cfg) (new_URL cfg) request))
           ''Invalid authentication''), L)"
  using assms by (simp add: POST_def Let_def)

lemma check_denied_same: "\<not> allowed (fst (check L c now)) \<Longrightarrow> snd (check L c now) = L"
  by (auto simp: check_def Let_def split: if_splits)

lemma POST_rate_limited:
  assumes "valid (validateAuth (security cfg) (new_URL cfg) request)"
    and "c = or_else (clientId (validateAuth (security cfg) (new_URL cfg) request)) ''anonymous''"
    and "\<not> allowed (fst (check L c now))"
  shows "POST cfg L now request =
     (failure RATE_LIMIT_EXCEEDED (rate_limit_message (fst (check L c now))), L)"
  using assms check_denied_same [of L c now]
  by (simp add: POST_def Let_def case_prod_beta)

lemma POST_bad_json:
  assumes "valid (validateAuth (security cfg) (new_URL cfg) request)"
    and "c = or_else (clientId (validateAuth (security cfg) (new_URL cfg) request)) ''anonymous''"
    and "allowed (fst (check L c now))"
    and "body request = Inl thrown"
  shows "POST cfg L now request = (caught cfg thrown, snd (check L c now))"
  using assms by (simp add: POST_def Let_def case_prod_beta)

lemma POST_invalid:
  assumes "valid (validateAuth (security cfg) (new_URL cfg) request)"
    and "c = or_else (clientId (validateAuth (security cfg) (new_URL cfg) request)) ''anonymous''"
    and "allowed (fst (check L c now))"
    and "body request = Inr b"
    and "\<not> vr_valid (validateRequest (MAX_PROMPT_LENGTH cfg) b)"
  shows "POST cfg L now request =
     (failure INVALID_REQUEST
        (or_else (vr_message (validateRequest (MAX_PROMPT_LENGTH cfg) b)) ''Invalid request format''),
      snd (check L c now))"
  using assms by (simp add: POST_def Let_def case_prod_beta)

lemma POST_execution_failed:
  assumes "valid (validateAuth (security cfg) (new_URL cfg) request)"
    and "c = or_else (clientId (validateAuth (security cfg) (new_URL cfg) request)) ''anonymous''"
    and "allowed (fst (check L c now))"
    and "body request = Inr b"
    and "vr_valid (validateRequest (MAX_PROMPT_LENGTH cfg) b)"
    and "execute (claudeWrapper cfg) (outside cfg) (execution_options b) = Inl thrown"
  shows "POST cfg L now request = (caught cfg thrown, snd (check L c now))"
  using assms by (simp add: POST_def Let_def case_prod_beta)

lemma POST_success:
  assumes "valid (validateAuth (security cfg) (new_URL cfg) request)"
    and "c = or_else (clientId (validateAuth (security cfg) (new_URL cfg) request)) ''anonymous''"
    and "allowed (fst (check L c now))"
    and "body request = Inr b"
    and "vr_valid (validateRequest (MAX_PROMPT_LENGTH cfg) b)"
    and "execute (claudeWrapper cfg) (outside cfg) (execution_options b) = Inr result"
  shows "POST cfg L now request =
     (\<lparr>success = True, data = Some result, error = None\<rparr>, recordSuccess (snd (check L c now)) c)"
  using assms by (simp add: POST_def Let_def case_prod_beta)

lemma check_allowed_records:
  "allowed (fst (check L c now)) \<Longrightarrow>
     requests (snd (check L c now)) c = Some (in_window L now (bucket L c) @ [now])"
  by (auto simp: check_def in_window_def Let_def split: if_splits)

text \<open>\<open>execute\<close> when every attempt fails, and when the first attempt succeeds.\<close>

lemma execute_all_fail:
  assumes "staging wd = None"
    and "\<forall>command p a. isl (executeClaude W (tool wd command p a))"
  shows "execute W wd opts =
     Inl (''Claude CLI failed after '' @ show_int (maxRetries W) @ '' attempts: ''
          @ (if 1 \<le> maxRetries W
             then projl (executeClaude W (tool wd ''claude --print''
                    (snd (buildCommandAndPrompt (action opts) (formatPrompt opts))) (maxRetries W)))
             else ''undefined''))"
proof -
  let ?p = "snd (buildCommandAndPrompt (action opts) (formatPrompt opts))"
  have "\<forall>a. 1 \<le> a \<and> a \<le> maxRetries W \<longrightarrow> isl (executeClaude W (tool wd ''claude --print'' ?p a))"
    using assms(2) by simp
  from executeWithRetry_all_fail [OF this] assms(1) show ?thesis
    by (simp add: execute_def buildCommandAndPrompt_def Let_def)
qed

text \<open>The sample deployment: its requests authenticate, its limiter admits them.\<close>

lemma demo_auth:
  "valid (validateAuth demo_security gas_url (demo_request b))
   \<and> clientId (validateAuth demo_security gas_url (demo_request b)) = Some (generateClientId (demo_request b))"
  by (simp add: validateAuth_def demo_security_def demo_request_def demo_headers_def or_else_def
      startsWith_def auth_failure_def Let_def)

lemma generateClientId_nonempty: "generateClientId r \<noteq> []"
  by (simp add: generateClientId_def Let_def)

lemma demo_check:
  "check demo_limiter c now =
     (\<lparr>allowed = True, remaining = 1, resetTime = Num 60000\<rparr>,
      demo_limiter\<lparr>requests := [c \<mapsto> [now]]\<rparr>)"
  by (simp add: check_def demo_limiter_def bucket_def Let_def)

lemma bad_body_invalid:
  "validateRequest 10000 bad_body = invalid ''Prompt is required and must be a string''"
  by (simp add: validateRequest_def bad_body_def)

lemma good_body_valid:
  "vr_valid (validateRequest 10000 good_body)"
  by (simp add: validateRequest_def good_body_def trim_def is_space_def)

lemma execute_first_success:
  assumes "staging wd = None" and "1 \<le> maxRetries W"
    and "\<forall>command p. executeClaude W (tool wd command p 1) = Inr out"
  shows "execute W wd opts = Inr (parseOutput out (action opts))"
proof -
  let ?p = "snd (buildCommandAndPrompt (action opts) (formatPrompt opts))"
  have ok: "executeClaude W (tool wd ''claude --print'' ?p 1) = Inr out"
    using assms(3) by simp
  have "retry_loop W (tool wd ''claude --print'' ?p) 1 None [] = (Inr out, [])"
    using assms(2) ok by (simp add: retry_loop.simps [of _ _ 1])
  with assms(1) show ?thesis
    by (simp add: execute_def executeWithRetry_def buildCommandAndPrompt_def Let_def)
qed

lemma demo_config_sel:
  "security (demo_config d t) = demo_security"
  "new_URL (demo_config d t) = gas_url"
  "development (demo_config d t) = d"
  "MAX_PROMPT_LENGTH (demo_config d t) = 10000"
  "claudeWrapper (demo_config d t) = \<lparr>timeout = 5000, maxRetries = 2, model = ''sonnet''\<rparr>"
  "outside (demo_config d t) = \<lparr>staging = None, tool = t\<rparr>"
  by (simp_all add: demo_config_def)

lemma demo_request_body: "body (demo_request b) = b"
  by (simp add: demo_request_def)

lemma or_else_client: "or_else (Some (generateClientId r)) d = generateClientId r"
  using generateClientId_nonempty [of r] by (simp add: or_else_def)

lemmas demo_simps =
  demo_config_sel demo_request_body demo_auth or_else_client demo_check

lemma demo_hung_execute:
  "execute \<lparr>timeout = 5000, maxRetries = 2, model = ''sonnet''\<rparr> \<lparr>staging = None, tool = hung_tool\<rparr> opts
     = Inl ''Claude CLI failed after 2 attempts: Claude CLI timed out after 5000ms''"
  by (subst execute_all_fail) (simp_all add: hung_tool_def show_int_def digit_char_def)

lemma demo_echo_execute:
  "execute \<lparr>timeout = 5000, maxRetries = 2, model = ''sonnet''\<rparr> \<lparr>staging = None, tool = echo_tool\<rparr> opts
     = Inr (parseOutput ''return a + b'' (action opts))"
  by (rule execute_first_success) (simp_all add: echo_tool_def)

lemma good_body_action: "action (execution_options good_body) = Generate"
  by (simp add: execution_options_def good_body_def action_of_def Let_def)

lemma parse_echo:
  "parseOutput ''return a + b'' Generate =
     \<lparr>code = None, analysis = None, suggestions = None, explanation = Some ''return a + b''\<rparr>"
  by code_simp

lemma demo_check_full:
  "check (demo_limiter\<lparr>requests := [c \<mapsto> [0, 1]]\<rparr>) c 2 =
     (\<lparr>allowed = False, remaining = 0, resetTime = Num 59998\<rparr>,
      demo_limiter\<lparr>requests := [c \<mapsto> [0, 1]]\<rparr>)"
  by (simp add: check_def demo_limiter_def bucket_def Let_def)

lemma demo_recordSuccess:
  "recordSuccess (demo_limiter\<lparr>requests := m\<rparr>) c = demo_limiter\<lparr>requests := m\<rparr>"
  by (simp add: recordSuccess_def demo_limiter_def)

lemma no_header_unauthorized:
  "validateAuth demo_security gas_url \<lparr>headers = Map.empty, ip = None, body = b\<rparr>
     = auth_failure ''Missing or invalid Authorization header''"
  by (simp add: validateAuth_def or_else_def Let_def)




text \<open>
  C4. The handler runs its stages in the order authentication, rate-limit check, reading
  the body, shape validation of the body, execution with extraction, and answers from the
  first stage that fails. A request that fails authentication, or that the limiter denies,
  leaves the limiter as it was. A request whose body cannot be read as JSON, or fails
  validation, is rejected after the limiter has admitted it: the limiter holds the
  timestamp of that request. The same limiter state is left when execution fails, and on
  success \<open>recordSuccess\<close> is applied to it. Every request falls under one of the six
  cases.
\<close>

theorem C4_stage_order:
  assumes "c = or_else (clientId (validateAuth (security cfg) (new_URL cfg) request)) ''anonymous''"
  shows "(\<not> valid (validateAuth (security cfg) (new_URL cfg) request) \<longrightarrow>
            POST cfg L now request =
              (failure UNAUTHORIZED
                 (or_else (message (validateAuth (security cfg) (new_URL cfg) request))
                    ''Invalid authentication''), L))
       \<and> (valid (validateAuth (security cfg) (new_URL cfg) request)
            \<and> \<not> allowed (fst (check L c now)) \<longrightarrow>
            POST cfg L now request =
              (failure RATE_LIMIT_EXCEEDED (rate_limit_message (fst (check L c now))), L))
       \<and> (valid (validateAuth (security cfg) (new_URL cfg) request)
            \<and> allowed (fst (check L c now)) \<and> body request = Inl unreadable \<longrightarrow>
            fst (POST cfg L now request) =
              failure INTERNAL_SERVER_ERROR
                (if development cfg then unreadable else ''An unexpected error occurred'')
            \<and> snd (POST cfg L now request) = snd (check L c now)
            \<and> requests (snd (POST cfg L now request)) c
                = Some (in_window L now (bucket L c) @ [now]))
       \<and> (valid (validateAuth (security cfg) (new_URL cfg) request)
            \<and> allowed (fst (check L c now)) \<and> body request = Inr b
            \<and> \<not> vr_valid (validateRequest (MAX_PROMPT_LENGTH cfg) b) \<longrightarrow>
            fst (POST cfg L now request) =
              failure INVALID_REQUEST
                (or_else (vr_message (validateRequest (MAX_PROMPT_LENGTH cfg) b))
                   ''Invalid request format'')
            \<and> snd (POST cfg L now request) = snd (check L c now)
            \<and> requests (snd (POST cfg L now request)) c
                = Some (in_window L now (bucket L c) @ [now]))
       \<and> (valid (validateAuth (security cfg) (new_URL cfg) request)
            \<and> allowed (fst (check L c now)) \<and> body request = Inr b
            \<and> vr_valid (validateRequest (MAX_PROMPT_LENGTH cfg) b)
            \<and> execute (claudeWrapper cfg) (outside cfg) (execution_options b) = Inl thrown \<longrightarrow>
            POST cfg L now request =
              (failure INTERNAL_SERVER_ERROR
                 (if development cfg then thrown else ''An unexpected error occurred''),
               snd (check L c now)))
       \<and> (valid (validateAuth (security cfg) (new_URL cfg) request)
            \<and> allowed (fst (check L c now)) \<and> body request = Inr b
            \<and> vr_valid (validateRequest (MAX_PROMPT_LENGTH cfg) b)
            \<and> execute (claudeWrapper cfg) (outside cfg) (execution_options b) = Inr result \<longrightarrow>
            POST cfg L now request =
              (\<lparr>success = True, data = Some result, error = None\<rparr>,
               recordSuccess (snd (check L c now)) c))"
  using POST_unauthorized [of cfg request L now]
    POST_rate_limited [OF _ assms, of L now]
    POST_bad_json [OF _ assms, of L now unreadable]
    POST_invalid [OF _ assms, of L now b]
    POST_execution_failed [OF _ assms, of L now b thrown]
    POST_success [OF _ assms, of L now b result]
    check_allowed_records [of L c now]
  by (simp add: caught_def)

text \<open>
  A body without a prompt, sent with a valid key: the answer is \<open>INVALID_REQUEST\<close>, and
  the limiter, empty before, holds the timestamp of the request.
\<close>

theorem C4_counterexample:
  "fst (POST (demo_config False echo_tool) demo_limiter 5 (demo_request (Inr bad_body)))
     = failure INVALID_REQUEST ''Prompt is required and must be a string''
   \<and> requests demo_limiter (generateClientId (demo_request (Inr bad_body))) = None
   \<and> requests (snd (POST (demo_config False echo_tool) demo_limiter 5 (demo_request (Inr bad_body))))
        (generateClientId (demo_request (Inr bad_body))) = Some [5]"
proof -
  let ?cfg = "demo_config False echo_tool" and ?req = "demo_request (Inr bad_body)"
  from POST_invalid [of ?cfg ?req "generateClientId ?req" demo_limiter 5 bad_body]
  have "POST ?cfg demo_limiter 5 ?req =
      (failure INVALID_REQUEST ''Prompt is required and must be a string'',
       demo_limiter\<lparr>requests := [generateClientId ?req \<mapsto> [5]]\<rparr>)"
    by (simp add: demo_simps bad_body_invalid invalid_def or_else_def [of "Some ''Prompt is required and must be a string''"])
  then show ?thesis by (simp add: demo_limiter_def)
qed

text \<open>Each stage answering in turn, on the sample deployment.\<close>

theorem C4_stage_order_witness:
  "POST (demo_config False echo_tool) demo_limiter 5 \<lparr>headers = Map.empty, ip = None, body = Inr good_body\<rparr>
     = (failure UNAUTHORIZED ''Missing or invalid Authorization header'', demo_limiter)
   \<and> POST (demo_config False echo_tool)
        (demo_limiter\<lparr>requests := [generateClientId (demo_request (Inr good_body)) \<mapsto> [0, 1]]\<rparr>) 2
        (demo_request (Inr good_body))
     = (failure RATE_LIMIT_EXCEEDED ''Rate limit exceeded. Remaining: 0, Reset in: 60s'',
        demo_limiter\<lparr>requests := [generateClientId (demo_request (Inr good_body)) \<mapsto> [0, 1]]\<rparr>)
   \<and> POST (demo_config False echo_tool) demo_limiter 5 (demo_request (Inl ''Unexpected end of JSON input''))
     = (failure INTERNAL_SERVER_ERROR ''An unexpected error occurred'',
        demo_limiter\<lparr>requests :=
          [generateClientId (demo_request (Inl ''Unexpected end of JSON input'')) \<mapsto> [5]]\<rparr>)
   \<and> POST (demo_config False echo_tool) demo_limiter 5 (demo_request (Inr bad_body))
     = (failure INVALID_REQUEST ''Prompt is required and must be a string'',
        demo_limiter\<lparr>requests := [generateClientId (demo_request (Inr bad_body)) \<mapsto> [5]]\<rparr>)
   \<and> POST (demo_config False hung_tool) demo_limiter 5 (demo_request (Inr good_body))
     = (failure INTERNAL_SERVER_ERROR ''An unexpected error occurred'',
        demo_limiter\<lparr>requests := [generateClientId (demo_request (Inr good_body)) \<mapsto> [5]]\<rparr>)
   \<and> POST (demo_config False echo_tool) demo_limiter 5 (demo_request (Inr good_body))
     = (\<lparr>success = True,
         data = Some \<lparr>code = None, analysis = None, suggestions = None,
                       explanation = Some ''return a + b''\<rparr>,
         error = None\<rparr>,
        demo_limiter\<lparr>requests := [generateClientId (demo_request (Inr good_body)) \<mapsto> [5]]\<rparr>)"
proof -
  let ?good = "demo_request (Inr good_body)" and ?bad = "demo_request (Inr bad_body)"
  let ?raw = "demo_request (Inl ''Unexpected end of JSON input'')"
  let ?anon = "\<lparr>headers = Map.empty, ip = None, body = Inr good_body\<rparr>"
  have 1: "POST (demo_config False echo_tool) demo_limiter 5 ?anon
     = (failure UNAUTHORIZED ''Missing or invalid Authorization header'', demo_limiter)"
    using C4_stage_order
      [where c = "or_else (clientId (validateAuth demo_security gas_url ?anon)) ''anonymous''"
         and cfg = "demo_config False echo_tool" and request = ?anon
         and L = demo_limiter and now = 5]
    by (simp add: demo_config_sel no_header_unauthorized auth_failure_def
        or_else_def [of "Some ''Missing or invalid Authorization header''"])
  have 2: "POST (demo_config False echo_tool)
        (demo_limiter\<lparr>requests := [generateClientId ?good \<mapsto> [0, 1]]\<rparr>) 2 ?good
     = (failure RATE_LIMIT_EXCEEDED ''Rate limit exceeded. Remaining: 0, Reset in: 60s'',
        demo_limiter\<lparr>requests := [generateClientId ?good \<mapsto> [0, 1]]\<rparr>)"
    using C4_stage_order
      [where c = "generateClientId ?good" and cfg = "demo_config False echo_tool"
         and request = ?good
         and L = "demo_limiter\<lparr>requests := [generateClientId ?good \<mapsto> [0, 1]]\<rparr>" and now = 2]
    by (simp add: demo_simps demo_check_full rate_limit_message_def show_int_def digit_char_def)
  have 3: "POST (demo_config False echo_tool) demo_limiter 5 ?raw
     = (failure INTERNAL_SERVER_ERROR ''An unexpected error occurred'',
        demo_limiter\<lparr>requests := [generateClientId ?raw \<mapsto> [5]]\<rparr>)"
    using C4_stage_order
      [where c = "generateClientId ?raw" and cfg = "demo_config False echo_tool"
         and request = ?raw and L = demo_limiter and now = 5
         and unreadable = "''Unexpected end of JSON input''"]
    by (simp add: demo_simps prod_eq_iff)
  have 4: "POST (demo_config False echo_tool) demo_limiter 5 ?bad
     = (failure INVALID_REQUEST ''Prompt is required and must be a string'',
        demo_limiter\<lparr>requests := [generateClientId ?bad \<mapsto> [5]]\<rparr>)"
    using C4_stage_order
      [where c = "generateClientId ?bad" and cfg = "demo_config False echo_tool"
         and request = ?bad and L = demo_limiter and now = 5 and b = bad_body]
    by (simp add: demo_simps bad_body_invalid invalid_def prod_eq_iff
        or_else_def [of "Some ''Prompt is required and must be a string''"])
  have 5: "POST (demo_config False hung_tool) demo_limiter 5 ?good
     = (failure INTERNAL_SERVER_ERROR ''An unexpected error occurred'',
        demo_limiter\<lparr>requests := [generateClientId ?good \<mapsto> [5]]\<rparr>)"
    using C4_stage_order
      [where c = "generateClientId ?good" and cfg = "demo_config False hung_tool"
         and request = ?good and L = demo_limiter and now = 5 and b = good_body
         and thrown = "''Claude CLI failed after 2 attempts: Claude CLI timed out after 5000ms''"]
    by (simp add: demo_simps good_body_valid demo_hung_execute)
  have 6: "POST (demo_config False echo_tool) demo_limiter 5 ?good
     = (\<lparr>success = True,
         data = Some \<lparr>code = None, analysis = None, suggestions = None,
                       explanation = Some ''return a + b''\<rparr>,
         error = None\<rparr>,
        demo_limiter\<lparr>requests := [generateClientId ?good \<mapsto> [5]]\<rparr>)"
    using C4_stage_order
      [where c = "generateClientId ?good" and cfg = "demo_config False echo_tool"
         and request = ?good and L = demo_limiter and now = 5 and b = good_body
         and result = "\<lparr>code = None, analysis = None, suggestions = None,
                         explanation = Some ''return a + b''\<rparr>"]
    by (simp add: demo_simps good_body_valid demo_echo_execute good_body_action parse_echo
        demo_recordSuccess)
  from 1 2 3 4 5 6 show ?thesis by simp
qed

end
